theory Spec2Isabelle
  imports Main
begin

section \<open>JavaScript values\<close>

text \<open>
  The values that flow through \<open>src/index.js\<close>. Objects and functions are references,
  compared by identity; numbers are integers here (the file never computes with them).
  On these values \<open>===\<close> is equality of the datatype and \<open>!==\<close> its negation.
\<close>

datatype jsval =
    JUndefined
  | JNull
  | JBool bool
  | JNum int
  | JStr string
  | JObj nat
  | JFun nat

text \<open>
  \<open>if (v)\<close>, \<open>Boolean(v)\<close>, \<open>a || b\<close>: the source tests values by truthiness, and so
  does the model. In particular \<open>selector.error\<close> counts as set exactly when it is truthy.
\<close>

fun truthy :: "jsval \<Rightarrow> bool" where
  "truthy JUndefined = False"
| "truthy JNull = False"
| "truthy (JBool b) = b"
| "truthy (JNum n) = (n \<noteq> 0)"
| "truthy (JStr s) = (s \<noteq> [])"
| "truthy (JObj a) = True"
| "truthy (JFun a) = True"

definition js_or :: "jsval \<Rightarrow> jsval \<Rightarrow> jsval" where
  "js_or a b = (if truthy a then a else b)"

fun typeof :: "jsval \<Rightarrow> string" where
  "typeof JUndefined = ''undefined''"
| "typeof JNull = ''object''"
| "typeof (JBool b) = ''boolean''"
| "typeof (JNum n) = ''number''"
| "typeof (JStr s) = ''string''"
| "typeof (JObj a) = ''object''"
| "typeof (JFun a) = ''function''"

text \<open>
  An object literal is the list of its own properties; reading a missing property gives
  \<open>undefined\<close>.
\<close>

type_synonym jsobject = "(string \<times> jsval) list"

definition get :: "jsobject \<Rightarrow> string \<Rightarrow> jsval" where
  "get obj k = (case map_of obj k of None \<Rightarrow> JUndefined | Some v \<Rightarrow> v)"

definition storeKey :: string where
  "storeKey = ''store''"

definition subscriptionKey :: string where
  "subscriptionKey = storeKey @ ''Subscription''"

definition methodName :: string where
  "methodName = ''connect''"

section \<open>The stateful selector\<close>

text \<open>
  \<open>sourceSelector(store.getState(), props)\<close> is application code: it returns a value or
  throws one. Every operation that makes the call takes its outcome as an argument.
\<close>

datatype outcome = Returns jsval | Throws jsval

text \<open>
  \<open>selector.run\<close> is a property that \<open>componentWillUnmount\<close> reassigns, so the selector
  records which function it currently holds.
\<close>

datatype run_impl = RunComponentSelector | RunNoop

record selector =
  sel_run :: run_impl
  sel_props :: jsval
  sel_error :: jsval
  sel_shouldComponentUpdate :: bool

text \<open>
  \<open>makeSelectorStateful\<close>: the object starts with \<open>run\<close> alone; \<open>props\<close> and \<open>error\<close>
  read as \<open>undefined\<close>, and so does \<open>shouldComponentUpdate\<close>, which is only ever tested
  for truthiness and therefore kept as a boolean.
\<close>

definition makeSelectorStateful :: selector where
  "makeSelectorStateful =
     \<lparr> sel_run = RunComponentSelector, sel_props = JUndefined, sel_error = JUndefined,
       sel_shouldComponentUpdate = False \<rparr>"

fun runComponentSelector :: "outcome \<Rightarrow> selector \<Rightarrow> selector" where
  "runComponentSelector (Returns nextProps) selector =
     (if nextProps \<noteq> sel_props selector \<or> truthy (sel_error selector)
      then selector\<lparr> sel_shouldComponentUpdate := True, sel_props := nextProps,
                     sel_error := JNull \<rparr>
      else selector)"
| "runComponentSelector (Throws error) selector =
     selector\<lparr> sel_shouldComponentUpdate := True, sel_error := error \<rparr>"

section \<open>Options and the connected class\<close>

text \<open>
  Names of components are strings. \<open>wrappedComponentName\<close> is absent from \<open>defaultOpts\<close>,
  so it is optional; a template literal prints an absent one as \<open>undefined\<close>.
\<close>

record options =
  wrappedComponentName :: "string option"
  getDisplayName :: "string \<Rightarrow> string"
  withRef :: bool

definition defaultOpts :: options where
  "defaultOpts =
     \<lparr> wrappedComponentName = None,
       getDisplayName = (\<lambda>name. ''Connect('' @ name @ '')''),
       withRef = False \<rparr>"

text \<open>The \<open>options\<close> argument of \<open>connect\<close>: every property may be left out.\<close>

record user_options =
  uo_wrappedComponentName :: "string option"
  uo_getDisplayName :: "(string \<Rightarrow> string) option"
  uo_withRef :: "bool option"

record opts =
  mapStateToProps :: jsval
  mapDispatchToProps :: jsval
  mergeProps :: jsval
  options :: options

text \<open>
  \<open>this.props\<close>, split the way \<open>getRestProps\<close> destructures it: the four option
  properties, \<open>children\<close>, and everything else (\<open>store\<close> and \<open>storeSubscription\<close> among it).
\<close>

record props = opts +
  children :: jsval
  otherProps :: jsobject

definition getRestProps :: "props \<Rightarrow> jsobject" where
  "getRestProps p = otherProps p"

text \<open>The value passed as \<open>WrappedComponent\<close>, with the two properties \<open>connect\<close> reads.\<close>

record component =
  comp_value :: jsval
  comp_displayName :: "string option"
  comp_name :: string

text \<open>
  \<open>Connect\<close> itself, or a \<open>ConnectWrap\<close> subclass made by \<open>connect\<close>: its static \<open>opts\<close>,
  its \<open>WrappedComponent\<close> and its \<open>displayName\<close>.
\<close>

datatype klass = Connect | ConnectWrap opts jsval string

fun displayName :: "klass \<Rightarrow> string option" where
  "displayName Connect = None"
| "displayName (ConnectWrap staticOpts w d) = Some d"

definition template :: "string option \<Rightarrow> string" where
  "template v = (case v of None \<Rightarrow> ''undefined'' | Some s \<Rightarrow> s)"

datatype exn =
    Error string
  | InvariantViolation string
  | TypeError string
  | Thrown jsval

text \<open>
  \<open>invariant(condition, format)\<close> of the \<open>invariant\<close> package, called here without further
  arguments: when the condition is falsy it throws an error whose message is the format
  with every \<open>%s\<close> replaced, from left to right, by the text of the missing argument,
  \<open>undefined\<close>. The format is a template literal and is built before the call.
\<close>

fun invariant_format :: "string \<Rightarrow> string" where
  "invariant_format [] = []"
| "invariant_format [c] = [c]"
| "invariant_format (c # d # cs) =
     (if c = CHR ''%'' \<and> d = CHR ''s'' then ''undefined'' @ invariant_format cs
      else c # invariant_format (d # cs))"

definition invariant :: "bool \<Rightarrow> string \<Rightarrow> exn option" where
  "invariant condition format =
     (if condition then None else Some (InvariantViolation (invariant_format format)))"

section \<open>Resolving the derivation stages\<close>

text \<open>
  A factory maps the argument to an initialiser or to a falsy value. \<open>match\<close> tries the
  factories from the last to the first; when none matches it returns a function that
  throws once it is called with the options.
\<close>

datatype init = Resolved jsval | InvalidValue jsval string

fun match_loop :: "nat \<Rightarrow> jsval \<Rightarrow> (jsval \<Rightarrow> jsval) list \<Rightarrow> jsval option" where
  "match_loop 0 arg factories = None"
| "match_loop (Suc i) arg factories =
     (let result = (factories ! i) arg
      in if truthy result then Some result else match_loop i arg factories)"

definition match :: "jsval \<Rightarrow> (jsval \<Rightarrow> jsval) list \<Rightarrow> string \<Rightarrow> init" where
  "match arg factories name =
     (case match_loop (length factories) arg factories of
        Some result \<Rightarrow> Resolved result
      | None \<Rightarrow> InvalidValue arg name)"

definition invalid_value_message :: "jsval \<Rightarrow> string \<Rightarrow> options \<Rightarrow> string" where
  "invalid_value_message arg name opt =
     ''Invalid value of type '' @ typeof arg @ '' for '' @ name
       @ '' argument when connecting component '' @ template (wrappedComponentName opt)
       @ ''.''"

text \<open>
  Calling what \<open>match\<close> returned with \<open>(dispatch, options)\<close>. An initialiser that a factory
  produced is code outside this file and is taken to return.
\<close>

fun init_call :: "init \<Rightarrow> options \<Rightarrow> exn option" where
  "init_call (InvalidValue arg name) opt = Some (Error (invalid_value_message arg name opt))"
| "init_call (Resolved f) opt = None"

text \<open>
  Modelled from the spec: \<open>selectorFactory\<close>, of \<open>./connect/selectorFactory\<close>, which is
  not among the sources. The spec (4.3) has a stage that cannot be resolved surface as a
  configuration error at connection setup: the factory initialises the three stages in
  order, each with \<open>(dispatch, options)\<close>, before it returns the source selector.
\<close>

definition selectorFactory :: "init \<Rightarrow> init \<Rightarrow> init \<Rightarrow> options \<Rightarrow> exn option" where
  "selectorFactory initMapStateToProps initMapDispatchToProps initMergeProps opt =
     (case init_call initMapStateToProps opt of
        Some e \<Rightarrow> Some e
      | None \<Rightarrow>
         (case init_call initMapDispatchToProps opt of
            Some e \<Rightarrow> Some e
          | None \<Rightarrow> init_call initMergeProps opt))"

record factories =
  mapStateToPropsFactories :: "(jsval \<Rightarrow> jsval) list"
  mapDispatchToPropsFactories :: "(jsval \<Rightarrow> jsval) list"
  mergePropsFactories :: "(jsval \<Rightarrow> jsval) list"

section \<open>The connected instance\<close>

text \<open>
  Calls that leave the instance are logged in the order they are made: the derivation
  \<open>sourceSelector(store.getState(), props)\<close>, the upstream registration of a subscription
  and its release, the fan-out of a subscription to its nested subscriptions, and the
  two requests for a visual update.
\<close>

datatype event =
    EvSelect jsobject
  | EvSubscribe nat
  | EvUnsubscribe nat
  | EvNotifyNestedSubs nat
  | EvSetState
  | EvForceUpdate

text \<open>
  Modelled from the spec: the \<open>Subscription\<close> class, of \<open>./utils/Subscription\<close>, which is
  not among the sources. A subscription node (spec 3 and 4.1) knows its store and its
  parent node and holds an unsubscribe handle while it is subscribed upstream; it is not
  subscribed when created.
\<close>

record subscription_node =
  sub_store :: jsval
  sub_parentSub :: jsval
  sub_unsubscribe :: bool

text \<open>
  \<open>this.notifyNestedSubs\<close> and \<open>this.componentDidUpdate\<close> are properties the instance
  reassigns; each records what it currently holds.
\<close>

datatype notify_impl = NotifyUndefined | NotifyBound nat | NotifyNoop

datatype did_update_impl = DidUpdateUndefined | NotifyNestedSubsOnComponentDidUpdate

text \<open>
  The instance together with the subscription objects it can reach (\<open>heap\<close>, with
  \<open>nextAddr\<close> the next free address) and its log. \<open>this.subscription\<close> is only ever a
  \<open>Subscription\<close> object or unset (\<open>undefined\<close> at first, \<open>null\<close> after unmount).
\<close>

record connect_instance =
  this_klass :: klass
  this_props :: props
  this_context :: jsobject
  this_store :: jsval
  this_propsMode :: bool
  this_staticOpts :: "opts option"
  this_selector :: selector
  this_subscription :: "nat option"
  this_notifyNestedSubs :: notify_impl
  this_componentDidUpdate :: did_update_impl
  heap :: "nat \<Rightarrow> subscription_node"
  nextAddr :: nat
  trace :: "event list"

definition getOptions :: "connect_instance \<Rightarrow> opts" where
  "getOptions c =
     (case this_staticOpts c of
        Some staticOpts \<Rightarrow> staticOpts
      | None \<Rightarrow> opts.truncate (this_props c))"

definition shouldHandleStateChanges :: "connect_instance \<Rightarrow> bool" where
  "shouldHandleStateChanges c = truthy (mapStateToProps (getOptions c))"

subsection \<open>Subscription methods\<close>

text \<open>
  Modelled from the spec: the methods of \<open>Subscription\<close> that the instance calls (spec
  4.1). \<open>trySubscribe\<close> and \<open>tryUnsubscribe\<close> are idempotent and act upstream only when
  they change the handle; \<open>notifyNestedSubs\<close> hands over to the nested subscriptions,
  which belong to other instances.
\<close>

definition sub_trySubscribe :: "nat \<Rightarrow> connect_instance \<Rightarrow> connect_instance" where
  "sub_trySubscribe a c =
     (if sub_unsubscribe (heap c a) then c
      else c\<lparr> heap := (heap c)(a := (heap c a)\<lparr> sub_unsubscribe := True \<rparr>),
              trace := trace c @ [EvSubscribe a] \<rparr>)"

definition sub_tryUnsubscribe :: "nat \<Rightarrow> connect_instance \<Rightarrow> connect_instance" where
  "sub_tryUnsubscribe a c =
     (if sub_unsubscribe (heap c a)
      then c\<lparr> heap := (heap c)(a := (heap c a)\<lparr> sub_unsubscribe := False \<rparr>),
              trace := trace c @ [EvUnsubscribe a] \<rparr>
      else c)"

definition sub_notifyNestedSubs :: "nat \<Rightarrow> connect_instance \<Rightarrow> connect_instance" where
  "sub_notifyNestedSubs a c = c\<lparr> trace := trace c @ [EvNotifyNestedSubs a] \<rparr>"

definition sub_isSubscribed :: "nat \<Rightarrow> connect_instance \<Rightarrow> bool" where
  "sub_isSubscribed a c = sub_unsubscribe (heap c a)"

subsection \<open>Calls through reassigned properties\<close>

definition selector_run :: "jsobject \<Rightarrow> outcome \<Rightarrow> connect_instance \<Rightarrow> connect_instance" where
  "selector_run restProps oc c =
     (case sel_run (this_selector c) of
        RunNoop \<Rightarrow> c
      | RunComponentSelector \<Rightarrow>
          c\<lparr> this_selector := runComponentSelector oc (this_selector c),
             trace := trace c @ [EvSelect restProps] \<rparr>)"

definition call_notifyNestedSubs :: "connect_instance \<Rightarrow> exn option \<times> connect_instance" where
  "call_notifyNestedSubs c =
     (case this_notifyNestedSubs c of
        NotifyUndefined \<Rightarrow> (Some (TypeError ''this.notifyNestedSubs is not a function''), c)
      | NotifyNoop \<Rightarrow> (None, c)
      | NotifyBound a \<Rightarrow> (None, sub_notifyNestedSubs a c))"

subsection \<open>Construction\<close>

definition missing_store_message :: "string option \<Rightarrow> string" where
  \<open>missing_store_message d =
     ''Could not find "'' @ storeKey @ ''" in either the context or props of ''
       @ ''"'' @ template d @ ''". Either wrap the root component in a <Provider>, ''
       @ ''or explicitly pass "'' @ storeKey @ ''" as a prop to "'' @ template d @ ''".''\<close>

definition initSelector :: "factories \<Rightarrow> outcome \<Rightarrow> connect_instance \<Rightarrow> exn + connect_instance" where
  "initSelector fs oc c =
     (let opt = getOptions c;
          initMapStateToProps =
            match (mapStateToProps opt) (mapStateToPropsFactories fs) ''mapStateToProps'';
          initMapDispatchToProps =
            match (mapDispatchToProps opt) (mapDispatchToPropsFactories fs) ''mapDispatchToProps'';
          initMergeProps = match (mergeProps opt) (mergePropsFactories fs) ''mergeProps''
      in case selectorFactory initMapStateToProps initMapDispatchToProps initMergeProps
                (options opt) of
           Some e \<Rightarrow> Inl e
         | None \<Rightarrow>
             Inr (selector_run (getRestProps (this_props c)) oc
                    (c\<lparr> this_selector := makeSelectorStateful \<rparr>)))"

definition initSubscription :: "connect_instance \<Rightarrow> connect_instance" where
  "initSubscription c =
     (if \<not> shouldHandleStateChanges c then c
      else
        let parentSub =
              get (if this_propsMode c then otherProps (this_props c) else this_context c)
                subscriptionKey;
            a = nextAddr c
        in c\<lparr> heap := (heap c)(a := \<lparr> sub_store = this_store c, sub_parentSub = parentSub,
                                       sub_unsubscribe = False \<rparr>),
              nextAddr := Suc a,
              this_subscription := Some a,
              this_notifyNestedSubs := NotifyBound a \<rparr>)"

text \<open>
  The constructor, given the class, \<open>props\<close> and \<open>context\<close>, the factory tables, the
  outcome of the first derivation and the subscription objects that exist already.
  \<open>Connect\<close> has no \<open>initialize\<close> method of its own; only \<open>ConnectWrap\<close> defines one.
\<close>

definition constructor ::
  "klass \<Rightarrow> props \<Rightarrow> jsobject \<Rightarrow> factories \<Rightarrow> outcome \<Rightarrow> (nat \<Rightarrow> subscription_node) \<Rightarrow> nat
     \<Rightarrow> exn + connect_instance" where
  "constructor k p ctx fs oc h n =
     (let store = js_or (get (otherProps p) storeKey) (get ctx storeKey);
          propsMode = truthy (get (otherProps p) storeKey)
      in case k of
           Connect \<Rightarrow> Inl (TypeError ''this.initialize is not a function'')
         | ConnectWrap staticOpts w d \<Rightarrow>
             (case invariant (truthy store) (missing_store_message (displayName k)) of
                Some e \<Rightarrow> Inl e
              | None \<Rightarrow>
                 (case initSelector fs oc
                         \<lparr> this_klass = k, this_props = p, this_context = ctx,
                           this_store = store, this_propsMode = propsMode,
                           this_staticOpts = Some staticOpts,
                           this_selector = makeSelectorStateful,
                           this_subscription = None,
                           this_notifyNestedSubs = NotifyUndefined,
                           this_componentDidUpdate = DidUpdateUndefined,
                           heap = h, nextAddr = n, trace = [] \<rparr> of
                    Inl e \<Rightarrow> Inl e
                  | Inr c \<Rightarrow> Inr (initSubscription c))))"

subsection \<open>Lifecycle methods\<close>

definition getChildContext :: "connect_instance \<Rightarrow> jsobject" where
  "getChildContext c =
     (let subscription = (if this_propsMode c then None else this_subscription c)
      in [(subscriptionKey,
           (case subscription of
              Some a \<Rightarrow> JObj a
            | None \<Rightarrow> get (this_context c) subscriptionKey))])"

definition forceUpdate :: "connect_instance \<Rightarrow> connect_instance" where
  "forceUpdate c = c\<lparr> trace := trace c @ [EvForceUpdate] \<rparr>"

definition setState :: "connect_instance \<Rightarrow> connect_instance" where
  "setState c = c\<lparr> trace := trace c @ [EvSetState] \<rparr>"

definition componentDidMount :: "outcome \<Rightarrow> connect_instance \<Rightarrow> exn option \<times> connect_instance" where
  "componentDidMount oc c =
     (if \<not> shouldHandleStateChanges c then (None, c)
      else
        (case this_subscription c of
           None \<Rightarrow> (Some (TypeError ''this.subscription is undefined''), c)
         | Some a \<Rightarrow>
             let c1 = sub_trySubscribe a c;
                 c2 = selector_run (getRestProps (this_props c1)) oc c1
             in if sel_shouldComponentUpdate (this_selector c2) then (None, forceUpdate c2)
                else (None, c2)))"

definition componentWillReceiveProps :: "props \<Rightarrow> outcome \<Rightarrow> connect_instance \<Rightarrow> connect_instance" where
  "componentWillReceiveProps nextProps oc c = selector_run (getRestProps nextProps) oc c"

definition shouldComponentUpdate :: "connect_instance \<Rightarrow> bool" where
  "shouldComponentUpdate c = sel_shouldComponentUpdate (this_selector c)"

definition componentWillUnmount :: "connect_instance \<Rightarrow> connect_instance" where
  "componentWillUnmount c =
     (let c1 = (case this_subscription c of Some a \<Rightarrow> sub_tryUnsubscribe a c | None \<Rightarrow> c)
      in c1\<lparr> this_subscription := None,
              this_notifyNestedSubs := NotifyNoop,
              this_store := JNull,
              this_selector :=
                (this_selector c1)\<lparr> sel_run := RunNoop, sel_shouldComponentUpdate := False \<rparr> \<rparr>)"

definition onStateChange :: "outcome \<Rightarrow> connect_instance \<Rightarrow> exn option \<times> connect_instance" where
  "onStateChange oc c =
     (let c1 = selector_run (getRestProps (this_props c)) oc c
      in if \<not> sel_shouldComponentUpdate (this_selector c1) then call_notifyNestedSubs c1
         else (None, setState (c1\<lparr> this_componentDidUpdate :=
                                      NotifyNestedSubsOnComponentDidUpdate \<rparr>)))"

definition notifyNestedSubsOnComponentDidUpdate :: "connect_instance \<Rightarrow> exn option \<times> connect_instance" where
  "notifyNestedSubsOnComponentDidUpdate c =
     call_notifyNestedSubs (c\<lparr> this_componentDidUpdate := DidUpdateUndefined \<rparr>)"

text \<open>
  The view runtime, once it has committed an update of the instance, calls
  \<open>componentDidUpdate\<close> if the instance has one at that moment.
\<close>

definition commit :: "connect_instance \<Rightarrow> exn option \<times> connect_instance" where
  "commit c =
     (case this_componentDidUpdate c of
        DidUpdateUndefined \<Rightarrow> (None, c)
      | NotifyNestedSubsOnComponentDidUpdate \<Rightarrow> notifyNestedSubsOnComponentDidUpdate c)"

definition isSubscribed :: "connect_instance \<Rightarrow> bool" where
  "isSubscribed c =
     (case this_subscription c of None \<Rightarrow> False | Some a \<Rightarrow> sub_isSubscribed a c)"

subsection \<open>Rendering\<close>

text \<open>
  \<open>addExtraProps\<close> returns the object it was given, or a shallow copy of it with \<open>ref\<close>
  and \<open>storeSubscription\<close> added.
\<close>

datatype extra = ExtraRef | ExtraStoreSubscription nat

datatype passed_props = SameObject jsval | ShallowCopy jsval "extra list"

definition addExtraProps :: "connect_instance \<Rightarrow> jsval \<Rightarrow> passed_props" where
  "addExtraProps c p =
     (let wr = withRef (options (getOptions c));
          ownSub = (if this_propsMode c then this_subscription c else None)
      in if \<not> wr \<and> ownSub = None then SameObject p
         else ShallowCopy p
                ((if wr then [ExtraRef] else [])
                 @ (case ownSub of Some a \<Rightarrow> [ExtraStoreSubscription a] | None \<Rightarrow> [])))"

text \<open>
  \<open>Connect\<close> calls \<open>this.props.children\<close> with the props; \<open>ConnectWrap\<close> creates an element
  of the wrapped component with the props and the children.
\<close>

datatype rendered = ChildrenCall jsval passed_props | WrappedElement jsval passed_props jsval

definition renderChild :: "connect_instance \<Rightarrow> rendered" where
  "renderChild c =
     (case this_klass c of
        Connect \<Rightarrow>
          ChildrenCall (children (this_props c)) (addExtraProps c (sel_props (this_selector c)))
      | ConnectWrap staticOpts w d \<Rightarrow>
          WrappedElement w (addExtraProps c (sel_props (this_selector c)))
            (children (this_props c)))"

definition render :: "connect_instance \<Rightarrow> (exn + rendered) \<times> connect_instance" where
  "render c =
     (let c1 = c\<lparr> this_selector := (this_selector c)\<lparr> sel_shouldComponentUpdate := False \<rparr> \<rparr>
      in if truthy (sel_error (this_selector c1))
         then (Inl (Thrown (sel_error (this_selector c1))), c1)
         else (Inr (renderChild c1), c1))"

subsection \<open>connect\<close>

text \<open>
  \<open>json\<close> is what \<open>JSON.stringify\<close> does with a value inside the template literal: it
  gives a text, or it throws (a circular object, a BigInt). The template literal is an
  argument of \<open>invariant\<close>, so it is evaluated before the check, whatever the value is.
  \<open>a || b\<close> on names: the empty string is falsy.
\<close>

definition name_or :: "string option \<Rightarrow> string \<Rightarrow> string" where
  "name_or a b = (case a of Some s \<Rightarrow> if s \<noteq> [] then s else b | None \<Rightarrow> b)"

definition merge_options :: "string \<Rightarrow> user_options option \<Rightarrow> options" where
  "merge_options wrappedName uo =
     (let base = defaultOpts\<lparr> wrappedComponentName := Some wrappedName \<rparr>
      in case uo of
           None \<Rightarrow> base
         | Some u \<Rightarrow>
             \<lparr> wrappedComponentName =
                 (case uo_wrappedComponentName u of Some s \<Rightarrow> Some s
                  | None \<Rightarrow> wrappedComponentName base),
               getDisplayName =
                 (case uo_getDisplayName u of Some f \<Rightarrow> f | None \<Rightarrow> getDisplayName base),
               withRef = (case uo_withRef u of Some b \<Rightarrow> b | None \<Rightarrow> withRef base) \<rparr>)"

definition connect ::
  "jsval \<Rightarrow> jsval \<Rightarrow> jsval \<Rightarrow> user_options option \<Rightarrow> (jsval \<Rightarrow> exn + string) \<Rightarrow> component
     \<Rightarrow> exn + klass" where
  "connect mapState mapDispatch merge uo json WrappedComponent =
     (case json (comp_value WrappedComponent) of
        Inl e \<Rightarrow> Inl e
      | Inr text \<Rightarrow>
         (case invariant (typeof (comp_value WrappedComponent) = ''function'')
                 (''You must pass a component to the function returned by ''
                  @ ''connect. Instead received '' @ text) of
            Some e \<Rightarrow> Inl e
          | None \<Rightarrow>
             let wrappedName =
                   name_or (comp_displayName WrappedComponent)
                     (name_or (Some (comp_name WrappedComponent)) ''Component'');
                 staticOpts =
                   \<lparr> mapStateToProps = mapState, mapDispatchToProps = mapDispatch,
                     mergeProps = merge, options = merge_options wrappedName uo \<rparr>
             in Inr (ConnectWrap staticOpts (comp_value WrappedComponent)
                       (getDisplayName (options staticOpts) wrappedName))))"

section \<open>Sequences of calls\<close>

text \<open>
  The calls the view runtime and the parent subscription make on an instance, each with
  the outcome of the derivation where the call may run the selector. A call that throws
  still leaves its assignments behind, so \<open>step\<close> gives the instance after the call.
\<close>

datatype call =
    ComponentDidMount outcome
  | ComponentWillReceiveProps props outcome
  | OnStateChange outcome
  | Render
  | Commit
  | ComponentWillUnmount

fun step :: "call \<Rightarrow> connect_instance \<Rightarrow> connect_instance" where
  "step (ComponentDidMount oc) c = snd (componentDidMount oc c)"
| "step (ComponentWillReceiveProps nextProps oc) c = componentWillReceiveProps nextProps oc c"
| "step (OnStateChange oc) c = snd (onStateChange oc c)"
| "step Render c = snd (render c)"
| "step Commit c = snd (commit c)"
| "step ComponentWillUnmount c = componentWillUnmount c"

fun steps :: "call list \<Rightarrow> connect_instance \<Rightarrow> connect_instance" where
  "steps [] c = c"
| "steps (k # ks) c = steps ks (step k c)"


fun is_OnStateChange :: "call \<Rightarrow> bool" where
  "is_OnStateChange (OnStateChange oc) = True"
| "is_OnStateChange k = False"

fun is_notification :: "event \<Rightarrow> bool" where
  "is_notification (EvNotifyNestedSubs a) = True"
| "is_notification e = False"

definition notifications :: "event list \<Rightarrow> event list" where
  "notifications t = filter is_notification t"

section \<open>A connected component on a small store\<close>

text \<open>
  The factory tables in the shape the library ships them: a stage is resolved when the
  argument is a function or is missing. The store is the object at address 100, the
  wrapped component the function \<open>Counter\<close>; \<open>ex_odd_component\<close> is a component whose
  \<open>displayName\<close> holds a \<open>%s\<close>.
\<close>

definition whenFunction :: "jsval \<Rightarrow> jsval" where
  "whenFunction arg = (case arg of JFun f \<Rightarrow> JFun f | _ \<Rightarrow> JUndefined)"

definition whenMissing :: "jsval \<Rightarrow> jsval" where
  "whenMissing arg = (if truthy arg then JUndefined else JFun 0)"

definition ex_factories :: factories where
  "ex_factories =
     \<lparr> mapStateToPropsFactories = [whenFunction, whenMissing],
       mapDispatchToPropsFactories = [whenFunction, whenMissing],
       mergePropsFactories = [whenFunction, whenMissing] \<rparr>"

definition ex_component :: component where
  "ex_component = \<lparr> comp_value = JFun 7, comp_displayName = None, comp_name = ''Counter'' \<rparr>"

definition ex_odd_component :: component where
  "ex_odd_component =
     \<lparr> comp_value = JFun 8, comp_displayName = Some ''A%sB'', comp_name = ''A'' \<rparr>"

text \<open>
  \<open>JSON.stringify\<close> on the values of the example: the number 42, the object at address 9,
  which refers to itself, and functions, for which it gives \<open>undefined\<close>.
\<close>

definition ex_json :: "jsval \<Rightarrow> exn + string" where
  "ex_json v =
     (case v of
        JNum n \<Rightarrow> Inr (if n = 42 then ''42'' else ''0'')
      | JObj a \<Rightarrow>
          (if a = 9 then Inl (TypeError ''Converting circular structure to JSON'')
           else Inr ''{}'')
      | _ \<Rightarrow> Inr ''undefined'')"

definition ex_staticOpts :: "jsval \<Rightarrow> opts" where
  "ex_staticOpts mapState =
     \<lparr> mapStateToProps = mapState, mapDispatchToProps = JUndefined, mergeProps = JUndefined,
       options = merge_options ''Counter'' None \<rparr>"

definition ex_klass :: "jsval \<Rightarrow> klass" where
  "ex_klass mapState = ConnectWrap (ex_staticOpts mapState) (JFun 7) ''Connect(Counter)''"

definition ex_props :: "jsobject \<Rightarrow> props" where
  "ex_props other =
     \<lparr> mapStateToProps = JUndefined, mapDispatchToProps = JUndefined, mergeProps = JUndefined,
       options = defaultOpts, children = JUndefined, otherProps = other \<rparr>"

definition ex_node :: "nat \<Rightarrow> subscription_node" where
  "ex_node a = \<lparr> sub_store = JObj 100, sub_parentSub = JNull, sub_unsubscribe = True \<rparr>"

text \<open>
  Two instances under an ambient subscription at address 3: one that finds the store
  in the context, one that is handed the store as a prop. Both derive from state
  (\<open>mapStateToProps\<close> is the function 10), so each owns the subscription at address 4.
\<close>

definition ex_context :: jsobject where
  "ex_context = [(''store'', JObj 100), (''storeSubscription'', JObj 3)]"

definition ex_selector :: selector where
  "ex_selector =
     \<lparr> sel_run = RunComponentSelector, sel_props = JObj 20, sel_error = JNull,
       sel_shouldComponentUpdate = True \<rparr>"

definition ex_instance :: "bool \<Rightarrow> connect_instance" where
  "ex_instance byProps =
     \<lparr> this_klass = ex_klass (JFun 10),
       this_props = ex_props (if byProps then [(''store'', JObj 100)] else []),
       this_context = ex_context,
       this_store = JObj 100,
       this_propsMode = byProps,
       this_staticOpts = Some (ex_staticOpts (JFun 10)),
       this_selector = ex_selector,
       this_subscription = Some 4,
       this_notifyNestedSubs = NotifyBound 4,
       this_componentDidUpdate = DidUpdateUndefined,
       heap = (ex_node)(4 := \<lparr> sub_store = JObj 100,
                                sub_parentSub = (if byProps then JUndefined else JObj 3),
                                sub_unsubscribe = False \<rparr>),
       nextAddr = 5,
       trace = [EvSelect (if byProps then [(''store'', JObj 100)] else [])] \<rparr>"

section \<open>Facts about the log\<close>

lemma notifications_append [simp]:
  "notifications (xs @ ys) = notifications xs @ notifications ys"
  by (simp add: notifications_def)

lemma notifications_simps [simp]:
  "notifications [] = []"
  "notifications (EvNotifyNestedSubs a # t) = EvNotifyNestedSubs a # notifications t"
  "notifications (EvSelect r # t) = notifications t"
  "notifications (EvSubscribe a # t) = notifications t"
  "notifications (EvUnsubscribe a # t) = notifications t"
  "notifications (EvSetState # t) = notifications t"
  "notifications (EvForceUpdate # t) = notifications t"
  by (simp_all add: notifications_def)

lemma selector_run_quiet:
  "notifications (trace (selector_run r oc c)) = notifications (trace c)"
  "this_componentDidUpdate (selector_run r oc c) = this_componentDidUpdate c"
  "this_notifyNestedSubs (selector_run r oc c) = this_notifyNestedSubs c"
  by (simp_all add: selector_run_def split: run_impl.splits)

section \<open>Unfolding the example\<close>

lemmas ex_defs = ex_instance_def ex_selector_def ex_props_def getRestProps_def selector_run_def
  render_def Let_def onStateChange_def commit_def call_notifyNestedSubs_def sub_notifyNestedSubs_def
  setState_def notifyNestedSubsOnComponentDidUpdate_def componentWillUnmount_def
  componentWillReceiveProps_def componentDidMount_def sub_trySubscribe_def sub_tryUnsubscribe_def
  sub_isSubscribed_def isSubscribed_def forceUpdate_def shouldHandleStateChanges_def getOptions_def
  ex_staticOpts_def shouldComponentUpdate_def

lemmas ctor_defs = constructor_def ex_klass_def ex_props_def ex_context_def ex_factories_def
  ex_instance_def initSelector_def initSubscription_def selectorFactory_def match_def
  invariant_def
  getOptions_def shouldHandleStateChanges_def ex_staticOpts_def whenFunction_def whenMissing_def
  selector_run_def makeSelectorStateful_def getRestProps_def get_def js_or_def storeKey_def
  subscriptionKey_def ex_selector_def numeral_2_eq_2 Let_def

lemmas render_defs = renderChild_def addExtraProps_def ex_klass_def merge_options_def
  defaultOpts_def

section \<open>The stateful selector: success and failure of a run\<close>

text \<open>
  A run whose derivation returned leaves \<open>props\<close> equal to the value returned, whether
  it assigned it or found it there already.
\<close>

lemma runComponentSelector_props:
  "sel_props (runComponentSelector (Returns v) s) = v"
  by simp

text \<open>A run that threw an ordinary (truthy) error leaves \<open>error\<close> set.\<close>

lemma runComponentSelector_throw_sets_error:
  "truthy e \<Longrightarrow> truthy (sel_error (runComponentSelector (Throws e) s))"
  by simp

text \<open>
  A run that ended in an error is not always followed by an update. The derivation
  throws the number 0, which the selector stores; the instance renders, which resets the
  flag and, 0 being falsy, renders the child from the props held; the next derivation
  returns the reference held. The test \<open>nextProps !== selector.props || selector.error\<close>
  fails: the flag stays false and the stored 0 is not replaced by \<open>null\<close>.
\<close>

theorem falsy_error_forces_no_update_counterexample:
  "sel_error (this_selector (selector_run [] (Throws (JNum 0)) (ex_instance False))) = JNum 0
   \<and> sel_shouldComponentUpdate
        (this_selector (selector_run [] (Throws (JNum 0)) (ex_instance False)))
   \<and> fst (render (selector_run [] (Throws (JNum 0)) (ex_instance False)))
       = Inr (WrappedElement (JFun 7) (SameObject (JObj 20)) JUndefined)
   \<and> sel_props (this_selector
        (snd (render (selector_run [] (Throws (JNum 0)) (ex_instance False))))) = JObj 20
   \<and> \<not> sel_shouldComponentUpdate (this_selector
        (selector_run [] (Returns (JObj 20))
           (snd (render (selector_run [] (Throws (JNum 0)) (ex_instance False))))))
   \<and> sel_error (this_selector
        (selector_run [] (Returns (JObj 20))
           (snd (render (selector_run [] (Throws (JNum 0)) (ex_instance False))))))
       = JNum 0"
  by (simp add: ex_defs render_defs)

text \<open>
  Claim C2, amended. A run of the selector whose derivation returns \<open>nextProps\<close>: if
  \<open>nextProps\<close> is not the reference held in \<open>selector.props\<close>, or \<open>selector.error\<close> holds a
  truthy value (the run before threw a truthy value), then \<open>shouldComponentUpdate\<close> is
  true afterwards, \<open>props\<close> is \<open>nextProps\<close> and \<open>error\<close> is \<open>null\<close>. If \<open>nextProps\<close> is the
  reference held and \<open>selector.error\<close> is falsy (no error before, or a falsy value
  thrown), the selector is left exactly as it was: the flag keeps its value, \<open>props\<close> the
  same reference and \<open>error\<close> its value. In particular the first case applies to the run
  that follows a run which threw a truthy \<open>e\<close>, even when the derivation returns the
  reference already held.
\<close>

theorem run_success_updates_or_keeps:
  "(nextProps \<noteq> sel_props s \<or> truthy (sel_error s) \<longrightarrow>
      sel_shouldComponentUpdate (runComponentSelector (Returns nextProps) s)
      \<and> sel_props (runComponentSelector (Returns nextProps) s) = nextProps
      \<and> sel_error (runComponentSelector (Returns nextProps) s) = JNull)
   \<and> (nextProps = sel_props s \<and> \<not> truthy (sel_error s) \<longrightarrow>
      runComponentSelector (Returns nextProps) s = s)
   \<and> (truthy e \<longrightarrow>
      sel_shouldComponentUpdate
        (runComponentSelector (Returns nextProps) (runComponentSelector (Throws e) s))
      \<and> sel_props (runComponentSelector (Returns nextProps) (runComponentSelector (Throws e) s))
          = nextProps
      \<and> sel_error (runComponentSelector (Returns nextProps) (runComponentSelector (Throws e) s))
          = JNull)"
  by simp

theorem run_success_updates_or_keeps_witness:
  "sel_shouldComponentUpdate (runComponentSelector (Returns (JObj 21)) ex_selector)
   \<and> sel_props (runComponentSelector (Returns (JObj 21)) ex_selector) = JObj 21
   \<and> sel_error (runComponentSelector (Returns (JObj 21)) ex_selector) = JNull
   \<and> runComponentSelector (Returns (JObj 20)) ex_selector = ex_selector
   \<and> sel_error (runComponentSelector (Throws (JObj 66)) ex_selector) = JObj 66
   \<and> runComponentSelector (Returns (JObj 20)) (runComponentSelector (Throws (JObj 66)) ex_selector)
       = ex_selector\<lparr> sel_error := JNull \<rparr>"
  using run_success_updates_or_keeps [of "JObj 21" ex_selector "JObj 66"]
    run_success_updates_or_keeps [of "JObj 20" ex_selector "JObj 66"]
  by (simp add: ex_selector_def)

text \<open>
  Claim C3. A run of the selector whose derivation throws \<open>e\<close>: \<open>e\<close> is stored in
  \<open>selector.error\<close>, \<open>shouldComponentUpdate\<close> is true afterwards and \<open>props\<close> is the
  reference it was. The error does not leave \<open>run\<close>: on an instance whose selector still
  holds \<open>runComponentSelector\<close>, the call of \<open>selector.run\<close> yields just this selector,
  and \<open>onStateChange\<close> and \<open>componentDidMount\<close>, which make the call, complete normally.
\<close>

theorem run_failure_captures_error:
  "sel_error (runComponentSelector (Throws e) s) = e
   \<and> sel_shouldComponentUpdate (runComponentSelector (Throws e) s)
   \<and> sel_props (runComponentSelector (Throws e) s) = sel_props s
   \<and> (sel_run (this_selector c) = RunComponentSelector \<longrightarrow>
        this_selector (selector_run restProps (Throws e) c)
          = runComponentSelector (Throws e) (this_selector c)
        \<and> fst (onStateChange (Throws e) c) = None
        \<and> (this_subscription c \<noteq> None \<longrightarrow> fst (componentDidMount (Throws e) c) = None))"
  by (auto simp: selector_run_def onStateChange_def componentDidMount_def Let_def
      sub_trySubscribe_def forceUpdate_def setState_def)

theorem run_failure_captures_error_witness:
  "sel_error (this_selector (selector_run [] (Throws (JObj 66)) (ex_instance False))) = JObj 66
   \<and> sel_props (this_selector (selector_run [] (Throws (JObj 66)) (ex_instance False))) = JObj 20
   \<and> fst (onStateChange (Throws (JObj 66)) (ex_instance False)) = None
   \<and> fst (componentDidMount (Throws (JObj 66)) (ex_instance False)) = None"
  using run_failure_captures_error [of "JObj 66" ex_selector "ex_instance False" "[]"]
  by (simp add: ex_instance_def ex_selector_def)

section \<open>Evaluating the example\<close>

text \<open>
  Both example instances are what the constructor builds from the class that \<open>connect\<close>
  returns for \<open>Counter\<close>.
\<close>

lemma ex_klass_connected:
  "connect (JFun 10) JUndefined JUndefined None ex_json ex_component = Inr (ex_klass (JFun 10))"
  by (simp add: connect_def ex_json_def invariant_def ex_component_def ex_klass_def
      ex_staticOpts_def name_or_def merge_options_def defaultOpts_def)

lemma ex_instance_constructed:
  "constructor (ex_klass (JFun 10)) (ex_props (if b then [(''store'', JObj 100)] else []))
     ex_context ex_factories (Returns (JObj 20)) ex_node 4
   = Inr (ex_instance b)"
  by (simp add: ctor_defs)

section \<open>What the constructor establishes\<close>

lemma runComponentSelector_run [simp]:
  "sel_run (runComponentSelector oc s) = sel_run s"
  by (cases oc) simp_all

lemma initSelector_fields:
  "initSelector fs oc c = Inr c' \<Longrightarrow>
     sel_run (this_selector c') = RunComponentSelector
     \<and> this_staticOpts c' = this_staticOpts c \<and> this_props c' = this_props c
     \<and> this_subscription c' = this_subscription c
     \<and> this_notifyNestedSubs c' = this_notifyNestedSubs c
     \<and> this_componentDidUpdate c' = this_componentDidUpdate c
     \<and> nextAddr c' = nextAddr c
     \<and> trace c' = trace c @ [EvSelect (getRestProps (this_props c))]"
  by (auto simp: initSelector_def Let_def selector_run_def makeSelectorStateful_def
      split: option.splits)

text \<open>
  Every instance the constructor returns runs the real selector, has no deferred hook
  and has notified nobody; it owns a fresh, not yet subscribed subscription with the
  bound \<open>notifyNestedSubs\<close> exactly when it handles state changes.
\<close>

lemma constructed_instance:
  assumes "constructor k p ctx fs oc h n = Inr c"
  shows "sel_run (this_selector c) = RunComponentSelector
         \<and> this_componentDidUpdate c = DidUpdateUndefined
         \<and> notifications (trace c) = []
         \<and> (shouldHandleStateChanges c \<longrightarrow>
              this_subscription c = Some n \<and> this_notifyNestedSubs c = NotifyBound n
              \<and> \<not> sub_isSubscribed n c)
         \<and> (\<not> shouldHandleStateChanges c \<longrightarrow>
              this_subscription c = None \<and> this_notifyNestedSubs c = NotifyUndefined)"
proof (cases k)
  case Connect
  with assms show ?thesis by (simp add: constructor_def)
next
  case (ConnectWrap so w d)
  with assms obtain c0 c1 where
    c0: "initSelector fs oc c0 = Inr c1" and c: "c = initSubscription c1"
    and f: "this_subscription c0 = None" "this_notifyNestedSubs c0 = NotifyUndefined"
      "this_componentDidUpdate c0 = DidUpdateUndefined" "trace c0 = []" "nextAddr c0 = n"
    by (auto simp: constructor_def Let_def split: option.splits sum.splits)
  have n: "nextAddr c1 = n"
    using initSelector_fields [OF c0] f(5) by simp
  have "getOptions (initSubscription c1) = getOptions c1"
    by (cases "shouldHandleStateChanges c1")
      (simp_all add: initSubscription_def getOptions_def Let_def split: option.splits)
  then have s: "shouldHandleStateChanges (initSubscription c1) = shouldHandleStateChanges c1"
    by (simp add: shouldHandleStateChanges_def)
  from initSelector_fields [OF c0] f n s show ?thesis
    unfolding c
    by (auto simp: initSubscription_def Let_def sub_isSubscribed_def)
qed

section \<open>Store notifications\<close>

text \<open>
  Claim C1. \<open>onStateChange\<close> runs the selector again (\<open>c1\<close> is the instance after the
  run). If \<open>shouldComponentUpdate\<close> is then false, it calls \<open>notifyNestedSubs\<close> at once:
  with the bound function, the notification of the own subscription is the next entry of
  the log. If it is true, nothing is forwarded: \<open>setState\<close> is called and
  \<open>componentDidUpdate\<close> is set to the deferred hook. The commit that follows calls the
  hook, which first unsets \<open>componentDidUpdate\<close> and then calls \<open>notifyNestedSubs\<close>: after
  the render and commit of that update the log holds one notification, right after the
  \<open>setState\<close>, and a second render and commit add none.
\<close>

theorem onStateChange_forwards_or_defers:
  assumes c1: "c1 = selector_run (getRestProps (this_props c)) oc c"
  shows
    "(\<not> sel_shouldComponentUpdate (this_selector c1) \<longrightarrow>
        onStateChange oc c = call_notifyNestedSubs c1
        \<and> (this_notifyNestedSubs c = NotifyBound a \<longrightarrow>
             onStateChange oc c = (None, c1\<lparr> trace := trace c1 @ [EvNotifyNestedSubs a] \<rparr>)))
     \<and> (sel_shouldComponentUpdate (this_selector c1) \<longrightarrow>
        onStateChange oc c =
          (None, c1\<lparr> this_componentDidUpdate := NotifyNestedSubsOnComponentDidUpdate,
                     trace := trace c1 @ [EvSetState] \<rparr>)
        \<and> commit (snd (onStateChange oc c)) =
            call_notifyNestedSubs
              ((snd (onStateChange oc c))\<lparr> this_componentDidUpdate := DidUpdateUndefined \<rparr>)
        \<and> (this_notifyNestedSubs c = NotifyBound a \<longrightarrow>
             trace (steps [Render, Commit] (snd (onStateChange oc c)))
               = trace c1 @ [EvSetState, EvNotifyNestedSubs a]
             \<and> this_componentDidUpdate (steps [Render, Commit] (snd (onStateChange oc c)))
               = DidUpdateUndefined
             \<and> trace (steps [Render, Commit, Render, Commit] (snd (onStateChange oc c)))
               = trace c1 @ [EvSetState, EvNotifyNestedSubs a]))"
  unfolding c1
  by (auto simp: onStateChange_def Let_def call_notifyNestedSubs_def sub_notifyNestedSubs_def
      setState_def commit_def notifyNestedSubsOnComponentDidUpdate_def render_def
      selector_run_def split: run_impl.splits)

theorem onStateChange_forwards_or_defers_witness:
  "trace (snd (onStateChange (Returns (JObj 20)) (snd (render (ex_instance False)))))
     = [EvSelect [], EvSelect [], EvNotifyNestedSubs 4]
   \<and> trace (snd (onStateChange (Returns (JObj 21)) (ex_instance False)))
     = [EvSelect [], EvSelect [], EvSetState]
   \<and> trace (steps [Render, Commit, Render, Commit]
               (snd (onStateChange (Returns (JObj 21)) (ex_instance False))))
     = [EvSelect [], EvSelect [], EvSetState, EvNotifyNestedSubs 4]"
  using onStateChange_forwards_or_defers
      [where c = "snd (render (ex_instance False))" and oc = "Returns (JObj 20)" and a = 4,
        OF refl]
    onStateChange_forwards_or_defers
      [where c = "ex_instance False" and oc = "Returns (JObj 21)" and a = 4, OF refl]
  by (simp add: ex_defs)

section \<open>Rendering and the stored error\<close>

lemma sub_frame [simp]:
  "this_selector (sub_trySubscribe a c) = this_selector c"
  "this_selector (sub_tryUnsubscribe a c) = this_selector c"
  "this_selector (sub_notifyNestedSubs a c) = this_selector c"
  by (simp_all add: sub_trySubscribe_def sub_tryUnsubscribe_def sub_notifyNestedSubs_def)






text \<open>
  Claim C9. Every call of \<open>render\<close> sets \<open>selector.shouldComponentUpdate\<close> to false and
  changes nothing else, before it looks at the error: the flag is false afterwards both
  when \<open>render\<close> throws the stored error and when it renders the child, and the child is
  rendered from the instance with the flag already reset.
\<close>

theorem render_resets_flag_first:
  "snd (render c) = c\<lparr> this_selector := (this_selector c)\<lparr> sel_shouldComponentUpdate := False \<rparr> \<rparr>
   \<and> \<not> shouldComponentUpdate (snd (render c))
   \<and> (truthy (sel_error (this_selector c)) \<longrightarrow>
         fst (render c) = Inl (Thrown (sel_error (this_selector c))))
   \<and> (\<not> truthy (sel_error (this_selector c)) \<longrightarrow>
         fst (render c) = Inr (renderChild (snd (render c))))"
  by (simp add: render_def shouldComponentUpdate_def Let_def)

theorem render_resets_flag_first_witness:
  "shouldComponentUpdate (selector_run [] (Throws (JObj 66)) (ex_instance False))
   \<and> fst (render (selector_run [] (Throws (JObj 66)) (ex_instance False))) = Inl (Thrown (JObj 66))
   \<and> \<not> shouldComponentUpdate (snd (render (selector_run [] (Throws (JObj 66)) (ex_instance False))))
   \<and> shouldComponentUpdate (ex_instance False)
   \<and> fst (render (ex_instance False))
       = Inr (WrappedElement (JFun 7) (SameObject (JObj 20)) JUndefined)
   \<and> \<not> shouldComponentUpdate (snd (render (ex_instance False)))"
  using render_resets_flag_first [of "selector_run [] (Throws (JObj 66)) (ex_instance False)"]
    render_resets_flag_first [of "ex_instance False"]
  by (simp add: ex_defs renderChild_def addExtraProps_def ex_klass_def merge_options_def
      defaultOpts_def)

section \<open>Attach and detach\<close>

text \<open>
  Claim C8. \<open>componentDidMount\<close> on an instance that handles state changes and owns the
  subscription \<open>a\<close>: the subscription is subscribed upstream first (the log shows the
  registration when it was not subscribed yet), then the selector is run on the current
  props, and when \<open>shouldComponentUpdate\<close> is true after that run \<open>forceUpdate\<close> is called,
  as the last entry of the log; the call completes normally. On an instance that does not
  handle state changes (\<open>mapStateToProps\<close> is falsy) \<open>componentDidMount\<close> does nothing at
  all, and \<open>initSubscription\<close> has created no subscription.
\<close>

theorem componentDidMount_subscribes_then_runs:
  "(shouldHandleStateChanges c \<and> this_subscription c = Some a \<longrightarrow>
      fst (componentDidMount oc c) = None
      \<and> sub_isSubscribed a (snd (componentDidMount oc c))
      \<and> this_selector (snd (componentDidMount oc c))
          = this_selector (selector_run (getRestProps (this_props c)) oc c)
      \<and> trace (snd (componentDidMount oc c))
          = trace c
            @ (if sub_isSubscribed a c then [] else [EvSubscribe a])
            @ (if sel_run (this_selector c) = RunComponentSelector
               then [EvSelect (getRestProps (this_props c))] else [])
            @ (if sel_shouldComponentUpdate
                    (this_selector (selector_run (getRestProps (this_props c)) oc c))
               then [EvForceUpdate] else []))
   \<and> (\<not> shouldHandleStateChanges c \<longrightarrow>
        componentDidMount oc c = (None, c) \<and> initSubscription c = c)"
  by (auto simp: componentDidMount_def Let_def sub_trySubscribe_def sub_isSubscribed_def
      selector_run_def forceUpdate_def initSubscription_def shouldHandleStateChanges_def
      getOptions_def split: run_impl.splits)

theorem componentDidMount_subscribes_then_runs_witness:
  "trace (snd (componentDidMount (Returns (JObj 21)) (snd (render (ex_instance False)))))
     = [EvSelect [], EvSubscribe 4, EvSelect [], EvForceUpdate]
   \<and> trace (snd (componentDidMount (Returns (JObj 20)) (snd (render (ex_instance False)))))
     = [EvSelect [], EvSubscribe 4, EvSelect []]
   \<and> componentDidMount (Returns (JObj 21))
        ((ex_instance False)\<lparr> this_staticOpts := Some (ex_staticOpts JUndefined) \<rparr>)
     = (None, (ex_instance False)\<lparr> this_staticOpts := Some (ex_staticOpts JUndefined) \<rparr>)"
  using componentDidMount_subscribes_then_runs
      [of "snd (render (ex_instance False))" 4 "Returns (JObj 21)"]
    componentDidMount_subscribes_then_runs
      [of "snd (render (ex_instance False))" 4 "Returns (JObj 20)"]
    componentDidMount_subscribes_then_runs
      [of "(ex_instance False)\<lparr> this_staticOpts := Some (ex_staticOpts JUndefined) \<rparr>" 4
        "Returns (JObj 21)"]
  by (simp add: ex_defs)

lemma unmounted_run_noop:
  "selector_run restProps oc (componentWillUnmount c) = componentWillUnmount c"
  by (simp add: selector_run_def componentWillUnmount_def Let_def)

lemma unmounted_notify_noop:
  "call_notifyNestedSubs (componentWillUnmount c) = (None, componentWillUnmount c)"
  by (simp add: call_notifyNestedSubs_def componentWillUnmount_def Let_def)

lemma unmounted_onStateChange:
  "onStateChange oc (componentWillUnmount c) = (None, componentWillUnmount c)"
proof -
  have "\<not> sel_shouldComponentUpdate (this_selector (componentWillUnmount c))"
    by (simp add: componentWillUnmount_def Let_def)
  then show ?thesis
    by (simp add: onStateChange_def unmounted_run_noop unmounted_notify_noop)
qed

text \<open>
  Late store notifications and late props leave an unmounted instance as it is, however
  many arrive.
\<close>

lemma unmounted_late_calls:
  "\<forall>k \<in> set ks. is_OnStateChange k \<or> (\<exists>p oc. k = ComponentWillReceiveProps p oc)
     \<Longrightarrow> steps ks (componentWillUnmount c) = componentWillUnmount c"
proof (induction ks)
  case Nil
  show ?case by simp
next
  case (Cons k ks)
  then have "step k (componentWillUnmount c) = componentWillUnmount c"
    by (cases k) (auto simp: unmounted_onStateChange componentWillReceiveProps_def unmounted_run_noop)
  with Cons show ?case by simp
qed

text \<open>
  Claim C5. After \<open>componentWillUnmount\<close> the subscription the instance owned is not
  subscribed, \<open>selector.run\<close> is the no-op, \<open>shouldComponentUpdate\<close> is false and
  \<open>notifyNestedSubs\<close> is the no-op. From then on a call of \<open>selector.run\<close> returns the
  instance unchanged, for any props and whatever the derivation would have done; a call
  of \<open>notifyNestedSubs\<close> completes normally and changes nothing; and so does every
  sequence of store notifications and new props that still reaches the instance.
\<close>

theorem componentWillUnmount_inert:
  "(this_subscription c = Some a \<longrightarrow> \<not> sub_isSubscribed a (componentWillUnmount c))
   \<and> \<not> isSubscribed (componentWillUnmount c)
   \<and> sel_run (this_selector (componentWillUnmount c)) = RunNoop
   \<and> \<not> sel_shouldComponentUpdate (this_selector (componentWillUnmount c))
   \<and> this_notifyNestedSubs (componentWillUnmount c) = NotifyNoop
   \<and> selector_run restProps oc (componentWillUnmount c) = componentWillUnmount c
   \<and> call_notifyNestedSubs (componentWillUnmount c) = (None, componentWillUnmount c)
   \<and> ((\<forall>k \<in> set ks. is_OnStateChange k \<or> (\<exists>p oc. k = ComponentWillReceiveProps p oc)) \<longrightarrow>
        steps ks (componentWillUnmount c) = componentWillUnmount c)"
proof -
  have "this_subscription c = Some a \<longrightarrow> \<not> sub_isSubscribed a (componentWillUnmount c)"
    by (simp add: componentWillUnmount_def sub_tryUnsubscribe_def sub_isSubscribed_def Let_def)
  moreover have "\<not> isSubscribed (componentWillUnmount c)"
    by (simp add: componentWillUnmount_def isSubscribed_def Let_def)
  moreover have "sel_run (this_selector (componentWillUnmount c)) = RunNoop"
    "\<not> sel_shouldComponentUpdate (this_selector (componentWillUnmount c))"
    "this_notifyNestedSubs (componentWillUnmount c) = NotifyNoop"
    by (simp_all add: componentWillUnmount_def Let_def)
  ultimately show ?thesis
    using unmounted_run_noop unmounted_notify_noop unmounted_late_calls by blast
qed

theorem componentWillUnmount_inert_witness:
  "sub_isSubscribed 4 (sub_trySubscribe 4 (ex_instance False))
   \<and> \<not> sub_isSubscribed 4 (componentWillUnmount (sub_trySubscribe 4 (ex_instance False)))
   \<and> trace (componentWillUnmount (sub_trySubscribe 4 (ex_instance False)))
       = [EvSelect [], EvSubscribe 4, EvUnsubscribe 4]
   \<and> steps [OnStateChange (Returns (JObj 21)),
             ComponentWillReceiveProps (ex_props []) (Throws (JObj 66)),
             OnStateChange (Throws (JObj 66))]
        (componentWillUnmount (sub_trySubscribe 4 (ex_instance False)))
       = componentWillUnmount (sub_trySubscribe 4 (ex_instance False))"
  using componentWillUnmount_inert
      [of "sub_trySubscribe 4 (ex_instance False)" 4 "[]" "Returns (JObj 21)"
        "[OnStateChange (Returns (JObj 21)),
          ComponentWillReceiveProps (ex_props []) (Throws (JObj 66)),
          OnStateChange (Throws (JObj 66))]"]
  by (simp add: ex_defs)

section \<open>Who notifies the nested subscriptions\<close>

text \<open>
  A call that is not a store notification, on an instance without a pending hook, adds
  no notification to the log and installs no hook.
\<close>

lemma step_quiet:
  assumes "\<not> is_OnStateChange k" and "this_componentDidUpdate c = DidUpdateUndefined"
  shows "notifications (trace (step k c)) = notifications (trace c)
         \<and> this_componentDidUpdate (step k c) = DidUpdateUndefined"
proof (cases k)
  case (ComponentDidMount oc)
  with assms(2) show ?thesis
    by (auto simp: componentDidMount_def Let_def sub_trySubscribe_def forceUpdate_def
        selector_run_quiet selector_run_def split: option.splits run_impl.splits)
next
  case (ComponentWillReceiveProps p oc)
  with assms(2) show ?thesis by (simp add: componentWillReceiveProps_def selector_run_quiet)
next
  case (OnStateChange oc)
  with assms(1) show ?thesis by simp
next
  case Render
  with assms(2) show ?thesis by (simp add: render_def Let_def)
next
  case Commit
  with assms(2) show ?thesis by (simp add: commit_def)
next
  case ComponentWillUnmount
  with assms(2) show ?thesis
    by (simp add: componentWillUnmount_def Let_def sub_tryUnsubscribe_def split: option.splits)
qed

lemma steps_quiet:
  "\<forall>k \<in> set ks. \<not> is_OnStateChange k \<Longrightarrow> this_componentDidUpdate c = DidUpdateUndefined
     \<Longrightarrow> notifications (trace (steps ks c)) = notifications (trace c)"
proof (induction ks arbitrary: c)
  case Nil
  show ?case by simp
next
  case (Cons k ks)
  from Cons.prems have q: "\<not> is_OnStateChange k" by simp
  from step_quiet [OF q Cons.prems(2)] Cons.IH [of "step k c"] Cons.prems(1)
  show ?case by simp
qed

text \<open>
  Claim C10. \<open>componentWillReceiveProps\<close> only runs the selector, on the rest of the new
  props: it adds no notification of nested subscriptions to the log and leaves
  \<open>componentDidUpdate\<close> as it was. More generally, on an instance with no deferred hook
  pending, no sequence of calls without a store notification (\<open>onStateChange\<close>) notifies
  the nested subscriptions, whatever props arrive and however often the instance renders
  and commits.
\<close>

theorem componentWillReceiveProps_never_notifies:
  "notifications (trace (componentWillReceiveProps nextProps oc c)) = notifications (trace c)
   \<and> this_componentDidUpdate (componentWillReceiveProps nextProps oc c) = this_componentDidUpdate c
   \<and> this_selector (componentWillReceiveProps nextProps oc c)
       = this_selector (selector_run (getRestProps nextProps) oc c)
   \<and> ((\<forall>k \<in> set ks. \<not> is_OnStateChange k) \<and> this_componentDidUpdate c = DidUpdateUndefined \<longrightarrow>
        notifications (trace (steps ks c)) = notifications (trace c))"
  using steps_quiet [of ks c]
  by (simp add: componentWillReceiveProps_def selector_run_quiet)

theorem componentWillReceiveProps_never_notifies_witness:
  "trace (steps [ComponentWillReceiveProps (ex_props [(''n'', JNum 1)]) (Returns (JObj 21)),
                 Render, Commit, ComponentDidMount (Returns (JObj 22))] (ex_instance False))
     = [EvSelect [], EvSelect [(''n'', JNum 1)], EvSubscribe 4, EvSelect [], EvForceUpdate]
   \<and> notifications
        (trace (steps [ComponentWillReceiveProps (ex_props [(''n'', JNum 1)]) (Returns (JObj 21)),
                 Render, Commit, ComponentDidMount (Returns (JObj 22))] (ex_instance False)))
     = []"
  using componentWillReceiveProps_never_notifies
      [of "ex_props [(''n'', JNum 1)]" "Returns (JObj 21)" "ex_instance False"
        "[ComponentWillReceiveProps (ex_props [(''n'', JNum 1)]) (Returns (JObj 21)),
          Render, Commit, ComponentDidMount (Returns (JObj 22))]"]
  by (simp add: ex_defs)

section \<open>The subscription handed to descendants\<close>

text \<open>
  The instance that is given its store as a prop owns the subscription at address 4,
  yet the slot it offers to its descendants holds the ambient subscription, at address 3.
\<close>

theorem propsMode_leaves_context_slot_counterexample:
  "constructor (ex_klass (JFun 10)) (ex_props [(''store'', JObj 100)]) ex_context ex_factories
      (Returns (JObj 20)) ex_node 4 = Inr (ex_instance True)
   \<and> this_propsMode (ex_instance True)
   \<and> this_subscription (ex_instance True) = Some 4
   \<and> get (getChildContext (ex_instance True)) subscriptionKey = JObj 3
   \<and> get (getChildContext (ex_instance True)) subscriptionKey \<noteq> JObj 4"
  by (simp add: ctor_defs getChildContext_def)

text \<open>
  Claim C7, amended. An instance that is given its store as a prop (\<open>propsMode\<close>) does not
  shadow the context slot: \<open>getChildContext\<close> passes along the subscription found in its
  own context, and \<open>addExtraProps\<close> hands the instance's own subscription to the child it
  renders, as the \<open>storeSubscription\<close> prop of a copy of the derived props. An instance
  that uses the store of the context puts its own subscription into the slot when it has
  one, adds no \<open>storeSubscription\<close> prop, and passes the ambient subscription along when
  it has none. The parent of the subscription an instance creates is read from where the
  store came from: from the props in \<open>propsMode\<close>, from the context otherwise.
\<close>

theorem child_context_and_extra_props:
  "(this_propsMode c \<longrightarrow>
      get (getChildContext c) subscriptionKey = get (this_context c) subscriptionKey)
   \<and> (this_propsMode c \<and> this_subscription c = Some a \<longrightarrow>
        addExtraProps c p
          = ShallowCopy p ((if withRef (options (getOptions c)) then [ExtraRef] else [])
                           @ [ExtraStoreSubscription a]))
   \<and> (\<not> this_propsMode c \<and> this_subscription c = Some a \<longrightarrow>
        get (getChildContext c) subscriptionKey = JObj a
        \<and> addExtraProps c p
            = (if withRef (options (getOptions c)) then ShallowCopy p [ExtraRef]
               else SameObject p))
   \<and> (this_subscription c = None \<longrightarrow>
        get (getChildContext c) subscriptionKey = get (this_context c) subscriptionKey)
   \<and> (shouldHandleStateChanges c \<longrightarrow>
        this_subscription (initSubscription c) = Some (nextAddr c)
        \<and> sub_parentSub (heap (initSubscription c) (nextAddr c))
            = get (if this_propsMode c then otherProps (this_props c) else this_context c)
                subscriptionKey)"
  by (simp add: getChildContext_def addExtraProps_def get_def initSubscription_def Let_def)

theorem child_context_and_extra_props_witness:
  "get (getChildContext (ex_instance True)) subscriptionKey = JObj 3
   \<and> addExtraProps (ex_instance True) (JObj 20) = ShallowCopy (JObj 20) [ExtraStoreSubscription 4]
   \<and> get (getChildContext (ex_instance False)) subscriptionKey = JObj 4
   \<and> addExtraProps (ex_instance False) (JObj 20) = SameObject (JObj 20)
   \<and> get (getChildContext ((ex_instance False)\<lparr> this_subscription := None \<rparr>)) subscriptionKey
       = JObj 3
   \<and> sub_parentSub (heap (initSubscription (ex_instance False)) 5) = JObj 3
   \<and> sub_parentSub (heap (initSubscription (ex_instance True)) 5) = JUndefined"
  using child_context_and_extra_props [of "ex_instance True" 4 "JObj 20"]
    child_context_and_extra_props [of "ex_instance False" 4 "JObj 20"]
    child_context_and_extra_props
      [of "(ex_instance False)\<lparr> this_subscription := None \<rparr>" 4 "JObj 20"]
  by (simp add: ex_defs ex_context_def get_def subscriptionKey_def storeKey_def
      merge_options_def defaultOpts_def)

section \<open>Setup faults\<close>

lemma match_loop_None:
  "(\<forall>i<n. \<not> truthy ((fs ! i) arg)) \<Longrightarrow> match_loop n arg fs = None"
  by (induction n) (simp_all add: Let_def)

lemma match_unresolved:
  assumes "\<forall>f \<in> set fs. \<not> truthy (f arg)"
  shows "match arg fs name = InvalidValue arg name"
proof -
  from assms have "\<forall>i<length fs. \<not> truthy ((fs ! i) arg)" by simp
  then have "match_loop (length fs) arg fs = None" by (rule match_loop_None)
  then show ?thesis by (simp add: match_def)
qed

lemma match_loop_resolved:
  "i < n \<Longrightarrow> truthy ((fs ! i) arg) \<Longrightarrow> match_loop n arg fs \<noteq> None"
proof (induction n)
  case 0
  then show ?case by simp
next
  case (Suc n)
  then show ?case by (cases "i = n") (auto simp: Let_def less_Suc_eq)
qed

lemma match_resolved:
  assumes "\<exists>f \<in> set fs. truthy (f arg)"
  shows "\<exists>r. match arg fs name = Resolved r"
proof -
  from assms obtain i where "i < length fs" "truthy ((fs ! i) arg)"
    by (auto simp: in_set_conv_nth)
  then have "match_loop (length fs) arg fs \<noteq> None" by (rule match_loop_resolved)
  then show ?thesis by (auto simp: match_def)
qed

text \<open>\<open>match\<close> returns the result of the last factory that accepts the argument.\<close>

lemma match_loop_last_wins:
  "i < n \<Longrightarrow> truthy ((fs ! i) arg) \<Longrightarrow> \<forall>j. i < j \<and> j < n \<longrightarrow> \<not> truthy ((fs ! j) arg)
     \<Longrightarrow> match_loop n arg fs = Some ((fs ! i) arg)"
proof (induction n)
  case 0
  then show ?case by simp
next
  case (Suc n)
  show ?case
  proof (cases "i = n")
    case True
    with Suc.prems show ?thesis by (simp add: Let_def)
  next
    case False
    with Suc.prems have "i < n" and "\<not> truthy ((fs ! n) arg)" by auto
    with Suc show ?thesis by (simp add: Let_def)
  qed
qed

text \<open>A message without a percent sign passes through \<open>invariant\<close> as it is.\<close>

lemma invariant_format_plain:
  "CHR ''%'' \<notin> set s \<Longrightarrow> invariant_format s = s"
  by (induction s rule: invariant_format.induct) auto

lemma connect_json_throws:
  "json (comp_value W) = Inl e \<Longrightarrow> connect mapState mapDispatch merge uo json W = Inl e"
  by (simp add: connect_def)

lemma connect_not_function:
  "json (comp_value W) = Inr text \<Longrightarrow> typeof (comp_value W) \<noteq> ''function'' \<Longrightarrow>
     connect mapState mapDispatch merge uo json W
       = Inl (InvariantViolation
                (invariant_format
                   (''You must pass a component to the function returned by connect. ''
                    @ ''Instead received '' @ text)))"
  by (simp add: connect_def invariant_def)

lemma connect_function:
  "json (comp_value W) = Inr text \<Longrightarrow> typeof (comp_value W) = ''function'' \<Longrightarrow>
     connect mapState mapDispatch merge None json W
       = Inr (ConnectWrap
                \<lparr> mapStateToProps = mapState, mapDispatchToProps = mapDispatch,
                  mergeProps = merge,
                  options = defaultOpts\<lparr> wrappedComponentName :=
                    Some (name_or (comp_displayName W)
                            (name_or (Some (comp_name W)) ''Component'')) \<rparr> \<rparr>
                (comp_value W)
                (''Connect(''
                 @ name_or (comp_displayName W) (name_or (Some (comp_name W)) ''Component'')
                 @ '')''))"
  by (simp add: connect_def invariant_def merge_options_def Let_def defaultOpts_def)

lemma constructor_bare:
  "constructor Connect p ctx fs oc h n = Inl (TypeError ''this.initialize is not a function'')"
  by (simp add: constructor_def)

lemma constructor_missing_store:
  "\<not> truthy (get (otherProps p) storeKey) \<Longrightarrow> \<not> truthy (get ctx storeKey) \<Longrightarrow>
     constructor (ConnectWrap so w d) p ctx fs oc h n
       = Inl (InvariantViolation (invariant_format (missing_store_message (Some d))))"
  by (simp add: constructor_def js_or_def invariant_def)

text \<open>
  With a store, a stage that no factory resolves makes the constructor of a connected
  class fail with the error of the function that \<open>match\<close> returned; the first unresolved
  stage is the one reported.
\<close>

lemma constructor_invalid_mapStateToProps:
  assumes "truthy (js_or (get (otherProps p) storeKey) (get ctx storeKey))"
    and "\<forall>f \<in> set (mapStateToPropsFactories fs). \<not> truthy (f (mapStateToProps so))"
  shows "constructor (ConnectWrap so w d) p ctx fs oc h n
           = Inl (Error (invalid_value_message (mapStateToProps so) ''mapStateToProps''
                    (options so)))"
  using assms(1) match_unresolved [OF assms(2)]
  by (simp add: constructor_def invariant_def initSelector_def getOptions_def
      selectorFactory_def Let_def)

lemma constructor_invalid_mapDispatchToProps:
  assumes "truthy (js_or (get (otherProps p) storeKey) (get ctx storeKey))"
    and "\<exists>f \<in> set (mapStateToPropsFactories fs). truthy (f (mapStateToProps so))"
    and "\<forall>f \<in> set (mapDispatchToPropsFactories fs). \<not> truthy (f (mapDispatchToProps so))"
  shows "constructor (ConnectWrap so w d) p ctx fs oc h n
           = Inl (Error (invalid_value_message (mapDispatchToProps so) ''mapDispatchToProps''
                    (options so)))"
  using assms(1) match_resolved [OF assms(2), of "''mapStateToProps''"]
    match_unresolved [OF assms(3)]
  by (auto simp: constructor_def invariant_def initSelector_def getOptions_def
      selectorFactory_def Let_def)

lemma constructor_invalid_mergeProps:
  assumes "truthy (js_or (get (otherProps p) storeKey) (get ctx storeKey))"
    and "\<exists>f \<in> set (mapStateToPropsFactories fs). truthy (f (mapStateToProps so))"
    and "\<exists>f \<in> set (mapDispatchToPropsFactories fs). truthy (f (mapDispatchToProps so))"
    and "\<forall>f \<in> set (mergePropsFactories fs). \<not> truthy (f (mergeProps so))"
  shows "constructor (ConnectWrap so w d) p ctx fs oc h n
           = Inl (Error (invalid_value_message (mergeProps so) ''mergeProps'' (options so)))"
  using assms(1) match_resolved [OF assms(2), of "''mapStateToProps''"]
    match_resolved [OF assms(3), of "''mapDispatchToProps''"] match_unresolved [OF assms(4)]
  by (auto simp: constructor_def invariant_def initSelector_def getOptions_def
      selectorFactory_def Let_def)

text \<open>The setup faults of \<open>Counter\<close>, where the messages come out as intended.\<close>

lemma setup_faults_of_Counter:
  "connect (JFun 10) JUndefined JUndefined None ex_json
      \<lparr> comp_value = JNum 42, comp_displayName = None, comp_name = [] \<rparr>
     = Inl (InvariantViolation
         ''You must pass a component to the function returned by connect. Instead received 42'')
   \<and> constructor (ex_klass (JFun 10)) (ex_props []) [] ex_factories (Returns (JObj 20)) ex_node 4
     = Inl (InvariantViolation (missing_store_message (Some ''Connect(Counter)'')))
   \<and> constructor (ex_klass (JNum 42)) (ex_props []) ex_context ex_factories (Returns (JObj 20))
        ex_node 4
     = Inl (Error ''Invalid value of type number for mapStateToProps argument when connecting component Counter.'')"
  by (simp add: ctor_defs ex_json_def connect_def template_def invalid_value_message_def
      missing_store_message_def merge_options_def defaultOpts_def)

text \<open>
  Claim C6. Three setup faults whose error names neither the offending value nor the
  component. The class \<open>Connect\<close> itself, constructed without a store: the constructor
  calls \<open>this.initialize\<close>, which only the classes made by \<open>connect\<close> define, and stops with
  a \<open>TypeError\<close> before it looks for the store. \<open>connect\<close> applied to an object that refers
  to itself, which is not a function: \<open>JSON.stringify\<close> is called while the message is
  built and its \<open>TypeError\<close> comes out in place of the message. A component whose
  \<open>displayName\<close> is \<open>A%sB\<close>, connected and constructed without a store: \<open>invariant\<close> takes
  the finished message as its format and puts \<open>undefined\<close> where the name has \<open>%s\<close>, so
  the message names \<open>Connect(AundefinedB)\<close>, which is not the name of the class.
\<close>

theorem setup_fault_message_lost:
  "constructor Connect (ex_props []) [] ex_factories (Returns (JObj 20)) ex_node 4
     = Inl (TypeError ''this.initialize is not a function'')
   \<and> typeof (JObj 9) \<noteq> ''function''
   \<and> connect (JFun 10) JUndefined JUndefined None ex_json
        \<lparr> comp_value = JObj 9, comp_displayName = None, comp_name = [] \<rparr>
     = Inl (TypeError ''Converting circular structure to JSON'')
   \<and> connect (JFun 10) JUndefined JUndefined None ex_json ex_odd_component
     = Inr (ConnectWrap
              \<lparr> mapStateToProps = JFun 10, mapDispatchToProps = JUndefined,
                mergeProps = JUndefined, options = merge_options ''A%sB'' None \<rparr>
              (JFun 8) ''Connect(A%sB)'')
   \<and> constructor
        (ConnectWrap
           \<lparr> mapStateToProps = JFun 10, mapDispatchToProps = JUndefined,
             mergeProps = JUndefined, options = merge_options ''A%sB'' None \<rparr>
           (JFun 8) ''Connect(A%sB)'')
        (ex_props []) [] ex_factories (Returns (JObj 20)) ex_node 4
     = Inl (InvariantViolation (missing_store_message (Some ''Connect(AundefinedB)'')))"
  by (simp add: ctor_defs ex_json_def ex_odd_component_def connect_def name_or_def
      merge_options_def defaultOpts_def template_def missing_store_message_def)

end
